theory Spec2Isabelle
  imports Main "HOL-Library.Multiset"
begin

section \<open>Data model (shared schema)\<close>

text \<open>
  The five tables of the schema. Identifiers are the \<^verbatim>\<open>varchar\<close> primary keys
  (filled by \<^verbatim>\<open>gen_random_uuid()\<close>), timestamps are points on a discrete clock, a
  nullable column is an \<open>option\<close>. The price of a stored product is the text in which
  the database returns the value of its \<^verbatim>\<open>numeric(10,2)\<close> column.
\<close>

type_synonym ident = string
type_synonym timestamp = nat

record user =
  u_id :: ident
  u_email :: string
  u_password :: string
  u_plan :: string
  u_stripeCustomerId :: "string option"
  u_stripeSubscriptionId :: "string option"
  u_subscriptionStatus :: "string option"
  u_subscriptionEndsAt :: "timestamp option"
  u_createdAt :: "timestamp option"

record restaurant =
  r_id :: ident
  r_userId :: ident
  r_name :: string
  r_description :: "string option"
  r_address :: "string option"
  r_phone :: "string option"
  r_hours :: "string option"
  r_logoUrl :: "string option"
  r_primaryColor :: "string option"
  r_menuStyle :: "string option"
  r_slug :: string
  r_createdAt :: "timestamp option"
  r_updatedAt :: "timestamp option"

record category =
  c_id :: ident
  c_restaurantId :: ident
  c_name :: string
  c_order :: int

record product =
  p_id :: ident
  p_restaurantId :: ident
  p_categoryId :: "ident option"
  p_name :: string
  p_description :: "string option"
  p_price :: string
  p_imageUrl :: "string option"
  p_isActive :: bool
  p_order :: int
  p_createdAt :: "timestamp option"
  p_updatedAt :: "timestamp option"

record menu_view =
  v_id :: ident
  v_restaurantId :: ident
  v_viewedAt :: "timestamp option"
  v_userAgent :: "string option"
  v_ipAddress :: "string option"

text \<open>The store: one row list per table, in insertion order.\<close>

record database =
  users :: "user list"
  restaurants :: "restaurant list"
  categories :: "category list"
  products :: "product list"
  menuViews :: "menu_view list"

text \<open>
  What a storage call, a schema parse or a provider call can throw. A constraint
  violation carries the name of the violated constraint, a data exception (a value that
  the column's type does not accept) the name of the column.
\<close>

datatype exn =
    ZodError
  | UniqueViolation string
  | ForeignKeyViolation string
  | DataException string
  | TypeError
  | StripeError string
  | NoEmailOnFile

section \<open>Slug derivation (generateSlug)\<close>

text \<open>
  A name is a list of code units below 256. \<^verbatim>\<open>toLowerCase\<close> maps \<^verbatim>\<open>A-Z\<close> and the
  Latin-1 capitals to their lower-case letters; \<^verbatim>\<open>\s\<close> (and the set that
  \<^verbatim>\<open>trim\<close> removes) is tab, line feed, vertical tab, form feed, carriage return,
  space and the no-break space.
\<close>

definition toLowerCase_char :: "char \<Rightarrow> char" where
  "toLowerCase_char c =
     (let n = of_char c :: nat in
      if (65 \<le> n \<and> n \<le> 90) \<or> (192 \<le> n \<and> n \<le> 222 \<and> n \<noteq> 215)
      then char_of (n + 32) else c)"

definition toLowerCase :: "string \<Rightarrow> string" where
  "toLowerCase s = map toLowerCase_char s"

definition is_space :: "char \<Rightarrow> bool" where
  "is_space c = (of_char c \<in> {9, 10, 11, 12, 13, 32, 160 :: nat})"

definition is_hyphen :: "char \<Rightarrow> bool" where
  "is_hyphen c = (c = CHR ''-'')"

text \<open>The characters that \<^verbatim>\<open>/[^a-z0-9\s-]/g\<close> leaves in place.\<close>

definition is_slug_char :: "char \<Rightarrow> bool" where
  "is_slug_char c =
     (let n = of_char c :: nat in
      (97 \<le> n \<and> n \<le> 122) \<or> (48 \<le> n \<and> n \<le> 57) \<or> is_space c \<or> is_hyphen c)"

text \<open>\<^verbatim>\<open>replace(/X+/g, '-')\<close>: every maximal run of \<open>X\<close> becomes one hyphen.\<close>

function replace_runs :: "(char \<Rightarrow> bool) \<Rightarrow> string \<Rightarrow> string" where
  "replace_runs P [] = []"
| "replace_runs P (c # cs) =
     (if P c then CHR ''-'' # replace_runs P (dropWhile P cs) else c # replace_runs P cs)"
  by pat_completeness auto
termination
  by (relation "measure (\<lambda>(P, s). length s)") (auto simp: length_dropWhile_le less_Suc_eq_le)

text \<open>\<^verbatim>\<open>String.prototype.trim\<close>: white space is removed at both ends.\<close>

definition trim :: "string \<Rightarrow> string" where
  "trim s = rev (dropWhile is_space (rev (dropWhile is_space s)))"

definition generateSlug :: "string \<Rightarrow> string" where
  "generateSlug name =
     trim (replace_runs is_hyphen
            (replace_runs is_space
              (filter is_slug_char (toLowerCase name))))"

section \<open>Storage layer (DatabaseStorage)\<close>

text \<open>
  Every insert takes the identifier and the time that the database's column defaults
  produce. A \<^verbatim>\<open>select\<close> that the code destructures as \<^verbatim>\<open>[row]\<close> is the first
  matching row.

  The price reaches the database as a string. The database's input function for the
  \<^verbatim>\<open>numeric(10,2)\<close> column is not part of the repository; the product writes take it as
  the parameter \<open>numeric_in\<close>: \<open>numeric_in s\<close> is the stored value, as the database
  returns it, or \<open>None\<close> when the database rejects \<open>s\<close> (not a number, or too large for
  the column). The \<^verbatim>\<open>integer\<close> column of the sort order holds 32-bit signed values.
\<close>

record insert_user =
  iu_email :: string
  iu_password :: string
  iu_plan :: "string option"

record insert_restaurant =
  ir_userId :: ident
  ir_name :: string
  ir_slug :: string

text \<open>
  \<^verbatim>\<open>InsertProduct\<close>: a key that may be absent is an \<open>option\<close>; for the nullable
  category reference, \<open>None\<close> is an absent key, \<open>Some None\<close> is \<^verbatim>\<open>null\<close>.
\<close>

record insert_product =
  ip_restaurantId :: ident
  ip_categoryId :: "ident option option"
  ip_name :: string
  ip_description :: "string option"
  ip_price :: string
  ip_imageUrl :: "string option"
  ip_isActive :: "bool option"
  ip_order :: "int option"

text \<open>\<^verbatim>\<open>Partial<Product>\<close> as the update route builds it: \<open>None\<close> leaves a column alone.\<close>

record product_patch =
  pp_categoryId :: "ident option option"
  pp_name :: "string option"
  pp_description :: "string option option"
  pp_price :: "string option"
  pp_imageUrl :: "string option option"
  pp_isActive :: "bool option"
  pp_order :: "int option"

definition getUser :: "database \<Rightarrow> ident \<Rightarrow> user option" where
  "getUser db i = find (\<lambda>u. u_id u = i) (users db)"

definition getUserByEmail :: "database \<Rightarrow> string \<Rightarrow> user option" where
  "getUserByEmail db e = find (\<lambda>u. u_email u = e) (users db)"

definition createUser ::
  "database \<Rightarrow> ident \<Rightarrow> timestamp \<Rightarrow> insert_user \<Rightarrow> exn + (user \<times> database)" where
  "createUser db nid now ins =
     (if \<exists>u \<in> set (users db). u_id u = nid then Inl (UniqueViolation ''users_pkey'')
      else if \<exists>u \<in> set (users db). u_email u = iu_email ins
        then Inl (UniqueViolation ''users_email_unique'')
      else
        let u = \<lparr>u_id = nid, u_email = iu_email ins, u_password = iu_password ins,
                 u_plan = (case iu_plan ins of None \<Rightarrow> ''free'' | Some p \<Rightarrow> p),
                 u_stripeCustomerId = None, u_stripeSubscriptionId = None,
                 u_subscriptionStatus = None, u_subscriptionEndsAt = None,
                 u_createdAt = Some now\<rparr>
        in Inr (u, db\<lparr>users := users db @ [u]\<rparr>))"

text \<open>\<^verbatim>\<open>updateUser\<close> as the routes call it: only the customer id is set.\<close>

definition updateUser :: "database \<Rightarrow> ident \<Rightarrow> string \<Rightarrow> user option \<times> database" where
  "updateUser db i customerId =
     (let db' = db\<lparr>users := map (\<lambda>u. if u_id u = i
                     then u\<lparr>u_stripeCustomerId := Some customerId\<rparr> else u) (users db)\<rparr>
      in (getUser db' i, db'))"

definition updateUserStripeInfo ::
  "database \<Rightarrow> ident \<Rightarrow> string \<Rightarrow> string \<Rightarrow> user option \<times> database" where
  "updateUserStripeInfo db i customerId subscriptionId =
     (let db' = db\<lparr>users := map (\<lambda>u. if u_id u = i
                     then u\<lparr>u_stripeCustomerId := Some customerId,
                            u_stripeSubscriptionId := Some subscriptionId,
                            u_plan := ''premium'',
                            u_subscriptionStatus := Some ''active''\<rparr>
                     else u) (users db)\<rparr>
      in (getUser db' i, db'))"

definition getRestaurantByUserId :: "database \<Rightarrow> ident \<Rightarrow> restaurant option" where
  "getRestaurantByUserId db uid = find (\<lambda>r. r_userId r = uid) (restaurants db)"

definition getRestaurantBySlug :: "database \<Rightarrow> string \<Rightarrow> restaurant option" where
  "getRestaurantBySlug db s = find (\<lambda>r. r_slug r = s) (restaurants db)"

definition createRestaurant ::
  "database \<Rightarrow> ident \<Rightarrow> timestamp \<Rightarrow> insert_restaurant \<Rightarrow> exn + (restaurant \<times> database)" where
  "createRestaurant db nid now ins =
     (if \<exists>r \<in> set (restaurants db). r_id r = nid
        then Inl (UniqueViolation ''restaurants_pkey'')
      else if \<not> (\<exists>u \<in> set (users db). u_id u = ir_userId ins)
        then Inl (ForeignKeyViolation ''restaurants_user_id_users_id_fk'')
      else if \<exists>r \<in> set (restaurants db). r_slug r = ir_slug ins
        then Inl (UniqueViolation ''restaurants_slug_unique'')
      else
        let r = \<lparr>r_id = nid, r_userId = ir_userId ins, r_name = ir_name ins,
                 r_description = None, r_address = None, r_phone = None, r_hours = None,
                 r_logoUrl = None, r_primaryColor = Some ''#059669'',
                 r_menuStyle = Some ''cards'', r_slug = ir_slug ins,
                 r_createdAt = Some now, r_updatedAt = Some now\<rparr>
        in Inr (r, db\<lparr>restaurants := restaurants db @ [r]\<rparr>))"

text \<open>\<^verbatim>\<open>ORDER BY\<close>: an insertion sort, so that rows with equal keys keep the table's order.\<close>

fun insort_by :: "('a \<Rightarrow> 'a \<Rightarrow> bool) \<Rightarrow> 'a \<Rightarrow> 'a list \<Rightarrow> 'a list" where
  "insort_by le x [] = [x]"
| "insort_by le x (y # ys) = (if le x y then x # y # ys else y # insort_by le x ys)"

definition sort_by :: "('a \<Rightarrow> 'a \<Rightarrow> bool) \<Rightarrow> 'a list \<Rightarrow> 'a list" where
  "sort_by le xs = foldr (insort_by le) xs []"

text \<open>\<^verbatim>\<open>desc(createdAt)\<close>: later first, \<^verbatim>\<open>NULL\<close> before every value.\<close>

definition created_desc_le :: "timestamp option \<Rightarrow> timestamp option \<Rightarrow> bool" where
  "created_desc_le a b =
     (case a of None \<Rightarrow> True | Some x \<Rightarrow> (case b of None \<Rightarrow> False | Some y \<Rightarrow> y \<le> x))"

definition product_le :: "product \<Rightarrow> product \<Rightarrow> bool" where
  "product_le p q =
     (p_order p < p_order q \<or>
      (p_order p = p_order q \<and> created_desc_le (p_createdAt p) (p_createdAt q)))"

definition category_le :: "category \<Rightarrow> category \<Rightarrow> bool" where
  "category_le c d = (c_order c \<le> c_order d)"

definition getCategoriesByRestaurant :: "database \<Rightarrow> ident \<Rightarrow> category list" where
  "getCategoriesByRestaurant db rid =
     sort_by category_le (filter (\<lambda>c. c_restaurantId c = rid) (categories db))"

definition deleteCategory :: "database \<Rightarrow> ident \<Rightarrow> database" where
  "deleteCategory db i =
     db\<lparr>categories := filter (\<lambda>c. c_id c \<noteq> i) (categories db),
        products :=
          (if \<exists>c \<in> set (categories db). c_id c = i
           then map (\<lambda>p. if p_categoryId p = Some i then p\<lparr>p_categoryId := None\<rparr> else p)
                  (products db)
           else products db)\<rparr>"

definition getProduct :: "database \<Rightarrow> ident \<Rightarrow> product option" where
  "getProduct db i = find (\<lambda>p. p_id p = i) (products db)"

definition getProductsByRestaurant :: "database \<Rightarrow> ident \<Rightarrow> product list" where
  "getProductsByRestaurant db rid =
     sort_by product_le (filter (\<lambda>p. p_restaurantId p = rid) (products db))"

definition category_exists :: "database \<Rightarrow> ident \<Rightarrow> bool" where
  "category_exists db cid = (\<exists>c \<in> set (categories db). c_id c = cid)"

definition int4_ok :: "int \<Rightarrow> bool" where
  "int4_ok n = (- 2147483648 \<le> n \<and> n \<le> 2147483647)"

definition createProduct ::
  "(string \<Rightarrow> string option) \<Rightarrow> database \<Rightarrow> ident \<Rightarrow> timestamp \<Rightarrow> insert_product
     \<Rightarrow> exn + (product \<times> database)" where
  "createProduct numeric_in db nid now ins =
     (case numeric_in (ip_price ins) of
        None \<Rightarrow> Inl (DataException ''price'')
      | Some price \<Rightarrow>
          if (case ip_order ins of Some n \<Rightarrow> \<not> int4_ok n | None \<Rightarrow> False)
            then Inl (DataException ''order'')
          else if \<exists>p \<in> set (products db). p_id p = nid
            then Inl (UniqueViolation ''products_pkey'')
          else if \<not> (\<exists>r \<in> set (restaurants db). r_id r = ip_restaurantId ins)
            then Inl (ForeignKeyViolation ''products_restaurant_id_restaurants_id_fk'')
          else if (case ip_categoryId ins of Some (Some cid) \<Rightarrow> \<not> category_exists db cid
                   | _ \<Rightarrow> False)
            then Inl (ForeignKeyViolation ''products_category_id_categories_id_fk'')
          else
            let p = \<lparr>p_id = nid, p_restaurantId = ip_restaurantId ins,
                     p_categoryId = (case ip_categoryId ins of Some c \<Rightarrow> c | None \<Rightarrow> None),
                     p_name = ip_name ins, p_description = ip_description ins,
                     p_price = price, p_imageUrl = ip_imageUrl ins,
                     p_isActive = (case ip_isActive ins of None \<Rightarrow> True | Some b \<Rightarrow> b),
                     p_order = (case ip_order ins of None \<Rightarrow> 0 | Some n \<Rightarrow> n),
                     p_createdAt = Some now, p_updatedAt = Some now\<rparr>
            in Inr (p, db\<lparr>products := products db @ [p]\<rparr>))"

text \<open>
  The columns that a patch sets, on one row; the price of the patch is already the value
  that the database stores.
\<close>

definition apply_patch :: "product_patch \<Rightarrow> timestamp \<Rightarrow> product \<Rightarrow> product" where
  "apply_patch d now p =
     p\<lparr>p_categoryId := (case pp_categoryId d of None \<Rightarrow> p_categoryId p | Some c \<Rightarrow> c),
       p_name := (case pp_name d of None \<Rightarrow> p_name p | Some n \<Rightarrow> n),
       p_description := (case pp_description d of None \<Rightarrow> p_description p | Some x \<Rightarrow> x),
       p_price := (case pp_price d of None \<Rightarrow> p_price p | Some x \<Rightarrow> x),
       p_imageUrl := (case pp_imageUrl d of None \<Rightarrow> p_imageUrl p | Some x \<Rightarrow> x),
       p_isActive := (case pp_isActive d of None \<Rightarrow> p_isActive p | Some b \<Rightarrow> b),
       p_order := (case pp_order d of None \<Rightarrow> p_order p | Some n \<Rightarrow> n),
       p_updatedAt := Some now\<rparr>"

text \<open>The price of a patch as the database takes it: absent, accepted, or rejected.\<close>

definition patch_price ::
  "(string \<Rightarrow> string option) \<Rightarrow> string option \<Rightarrow> string option option" where
  "patch_price numeric_in x =
     (case x of None \<Rightarrow> Some None | Some s \<Rightarrow> map_option Some (numeric_in s))"

definition updateProduct ::
  "(string \<Rightarrow> string option) \<Rightarrow> database \<Rightarrow> timestamp \<Rightarrow> ident \<Rightarrow> product_patch
     \<Rightarrow> exn + (product option \<times> database)" where
  "updateProduct numeric_in db now i d =
     (case patch_price numeric_in (pp_price d) of
        None \<Rightarrow> Inl (DataException ''price'')
      | Some price \<Rightarrow>
          if (case pp_order d of Some n \<Rightarrow> \<not> int4_ok n | None \<Rightarrow> False)
            then Inl (DataException ''order'')
          else if (\<exists>p \<in> set (products db). p_id p = i) \<and>
             (case pp_categoryId d of Some (Some cid) \<Rightarrow> \<not> category_exists db cid
              | _ \<Rightarrow> False)
            then Inl (ForeignKeyViolation ''products_category_id_categories_id_fk'')
          else
            let db' = db\<lparr>products :=
                        map (\<lambda>p. if p_id p = i then apply_patch (d\<lparr>pp_price := price\<rparr>) now p
                                 else p) (products db)\<rparr>
            in Inr (getProduct db' i, db'))"

definition deleteProduct :: "database \<Rightarrow> ident \<Rightarrow> database" where
  "deleteProduct db i = db\<lparr>products := filter (\<lambda>p. p_id p \<noteq> i) (products db)\<rparr>"

definition getProductCount :: "database \<Rightarrow> ident \<Rightarrow> nat" where
  "getProductCount db rid =
     length (filter (\<lambda>p. p_restaurantId p = rid \<and> p_isActive p) (products db))"

definition recordMenuView ::
  "database \<Rightarrow> ident \<Rightarrow> timestamp \<Rightarrow> ident \<Rightarrow> string option \<Rightarrow> string option
     \<Rightarrow> exn + (menu_view \<times> database)" where
  "recordMenuView db nid now rid userAgent ipAddress =
     (if \<exists>v \<in> set (menuViews db). v_id v = nid then Inl (UniqueViolation ''menu_views_pkey'')
      else if \<not> (\<exists>r \<in> set (restaurants db). r_id r = rid)
        then Inl (ForeignKeyViolation ''menu_views_restaurant_id_restaurants_id_fk'')
      else
        let v = \<lparr>v_id = nid, v_restaurantId = rid, v_viewedAt = Some now,
                 v_userAgent = userAgent, v_ipAddress = ipAddress\<rparr>
        in Inr (v, db\<lparr>menuViews := menuViews db @ [v]\<rparr>))"

definition getMenuViewCount :: "database \<Rightarrow> ident \<Rightarrow> nat" where
  "getMenuViewCount db rid = length (filter (\<lambda>v. v_restaurantId v = rid) (menuViews db))"

section \<open>The billing provider\<close>

text \<open>
  Modelled from the spec: the external billing provider (the Stripe service behind the
  client library, which is not part of the repository). It keeps the customers,
  products, prices and subscriptions it was asked to create; retrieving a subscription
  looks it up by its id. What the provider answers to each call of one request (a
  fresh id, or an error message) is given by a \<open>provider\<close> value.
\<close>

record subscription =
  sub_id :: ident
  sub_customer :: ident
  sub_price :: ident
  sub_clientSecret :: "string option"

record stripe =
  st_customers :: "(ident \<times> string) list"
  st_products :: "ident list"
  st_prices :: "(ident \<times> ident) list"
  st_subscriptions :: "subscription list"

record provider =
  pr_retrieve_error :: "string option"
  pr_customer :: "string + ident"
  pr_product :: "string + ident"
  pr_price :: "string + ident"
  pr_subscription :: "string + (ident \<times> string option)"

definition subscriptions_retrieve :: "stripe \<Rightarrow> provider \<Rightarrow> ident \<Rightarrow> exn + subscription" where
  "subscriptions_retrieve st pr sid =
     (case pr_retrieve_error pr of
        Some m \<Rightarrow> Inl (StripeError m)
      | None \<Rightarrow>
          (case find (\<lambda>s. sub_id s = sid) (st_subscriptions st) of
             None \<Rightarrow> Inl (StripeError ''No such subscription'')
           | Some s \<Rightarrow> Inr s))"

definition customers_create :: "stripe \<Rightarrow> provider \<Rightarrow> string \<Rightarrow> exn + (ident \<times> stripe)" where
  "customers_create st pr email =
     (case pr_customer pr of
        Inl m \<Rightarrow> Inl (StripeError m)
      | Inr cid \<Rightarrow> Inr (cid, st\<lparr>st_customers := st_customers st @ [(cid, email)]\<rparr>))"

definition products_create :: "stripe \<Rightarrow> provider \<Rightarrow> exn + (ident \<times> stripe)" where
  "products_create st pr =
     (case pr_product pr of
        Inl m \<Rightarrow> Inl (StripeError m)
      | Inr pid \<Rightarrow> Inr (pid, st\<lparr>st_products := st_products st @ [pid]\<rparr>))"

definition prices_create :: "stripe \<Rightarrow> provider \<Rightarrow> ident \<Rightarrow> exn + (ident \<times> stripe)" where
  "prices_create st pr product =
     (case pr_price pr of
        Inl m \<Rightarrow> Inl (StripeError m)
      | Inr pid \<Rightarrow> Inr (pid, st\<lparr>st_prices := st_prices st @ [(pid, product)]\<rparr>))"

definition subscriptions_create ::
  "stripe \<Rightarrow> provider \<Rightarrow> ident \<Rightarrow> ident \<Rightarrow> exn + (subscription \<times> stripe)" where
  "subscriptions_create st pr customer price =
     (case pr_subscription pr of
        Inl m \<Rightarrow> Inl (StripeError m)
      | Inr (sid, secret) \<Rightarrow>
          let s = \<lparr>sub_id = sid, sub_customer = customer, sub_price = price,
                   sub_clientSecret = secret\<rparr>
          in Inr (s, st\<lparr>st_subscriptions := st_subscriptions st @ [s]\<rparr>))"

section \<open>Route handlers\<close>

text \<open>
  A handler takes the store, what the request carries (the authenticated identity that
  the session middleware attached, or none; the outcome of the schema parse of the body,
  \<open>None\<close> when the parse throws; the stored name of an uploaded file) and returns the
  response with the store it leaves. A response is a JSON payload, a status with one of
  the handler's messages, a bare status, or nothing at all when an exception escapes the
  handler.
\<close>

datatype failure =
    Unauthenticated
  | RestaurantNotFound
  | ProductNotFound
  | MenuNotFound
  | NotOwner
  | PlanLimitExceeded
  | EmailInUse
  | AutoLoginFailed
  | ServiceUnavailable
  | Thrown exn

datatype 'a response =
    Json 'a
  | Fail nat failure
  | SendStatus nat
  | Unhandled exn

subsection \<open>POST /api/register\<close>

record register_body =
  rb_email :: "string option"
  rb_password :: "string option"
  rb_restaurantName :: "string option"

record register_data =
  rd_email :: string
  rd_password :: string
  rd_restaurantName :: string

text \<open>The schema wants an email, a password and a restaurant name of at least one character.\<close>

definition parse_register :: "register_body \<Rightarrow> exn + register_data" where
  "parse_register b =
     (case (rb_email b, rb_password b, rb_restaurantName b) of
        (Some e, Some p, Some n) \<Rightarrow>
          if length n < 1 then Inl ZodError
          else Inr \<lparr>rd_email = e, rd_password = p, rd_restaurantName = n\<rparr>
      | _ \<Rightarrow> Inl ZodError)"

text \<open>
  \<open>hash\<close> is the password hash, \<open>uid\<close> and \<open>rid\<close> the identifiers the database
  generates for the two rows, \<open>login_ok\<close> whether the automatic login succeeds.
\<close>

definition post_register ::
  "database \<Rightarrow> (string \<Rightarrow> string) \<Rightarrow> ident \<Rightarrow> ident \<Rightarrow> timestamp \<Rightarrow> bool \<Rightarrow> register_body
     \<Rightarrow> (user \<times> restaurant) response \<times> database" where
  "post_register db hash uid rid now login_ok body =
     (case parse_register body of
        Inl e \<Rightarrow> (Fail 400 (Thrown e), db)
      | Inr data \<Rightarrow>
          (case getUserByEmail db (rd_email data) of
             Some existingUser \<Rightarrow> (Fail 400 EmailInUse, db)
           | None \<Rightarrow>
               (case createUser db uid now
                       \<lparr>iu_email = rd_email data, iu_password = hash (rd_password data),
                        iu_plan = Some ''free''\<rparr> of
                  Inl e \<Rightarrow> (Fail 400 (Thrown e), db)
                | Inr (user, db1) \<Rightarrow>
                    (case createRestaurant db1 rid now
                            \<lparr>ir_userId = u_id user, ir_name = rd_restaurantName data,
                             ir_slug = generateSlug (rd_restaurantName data)\<rparr> of
                       Inl e \<Rightarrow> (Fail 400 (Thrown e), db1)
                     | Inr (restaurant, db2) \<Rightarrow>
                         if login_ok then (Json (user, restaurant), db2)
                         else (Fail 500 AutoLoginFailed, db2)))))"

subsection \<open>Product routes\<close>

record product_body =
  pb_categoryId :: "ident option option"
  pb_name :: string
  pb_description :: "string option"
  pb_price :: string
  pb_imageUrl :: "string option"
  pb_isActive :: "bool option"
  pb_order :: "int option"

text \<open>The category id \<^verbatim>\<open>"none"\<close> stands for \<^verbatim>\<open>null\<close>.\<close>

definition none_to_null :: "ident option option \<Rightarrow> ident option option" where
  "none_to_null c = (if c = Some (Some ''none'') then Some None else c)"

definition upload_url :: "string \<Rightarrow> string" where
  "upload_url filename = ''/uploads/'' @ filename"

definition post_products ::
  "(string \<Rightarrow> string option) \<Rightarrow> database \<Rightarrow> ident \<Rightarrow> timestamp \<Rightarrow> user option
     \<Rightarrow> product_body option \<Rightarrow> string option \<Rightarrow> product response \<times> database" where
  "post_products numeric_in db nid now req_user body file =
     (case req_user of
        None \<Rightarrow> (Fail 401 Unauthenticated, db)
      | Some user \<Rightarrow>
          (case getRestaurantByUserId db (u_id user) of
             None \<Rightarrow> (Fail 404 RestaurantNotFound, db)
           | Some restaurant \<Rightarrow>
               if u_plan user = ''free'' \<and> getProductCount db (r_id restaurant) \<ge> 5
               then (Fail 400 PlanLimitExceeded, db)
               else
                 (case body of
                    None \<Rightarrow> (Fail 400 (Thrown ZodError), db)
                  | Some data \<Rightarrow>
                      (case createProduct numeric_in db nid now
                              \<lparr>ip_restaurantId = r_id restaurant,
                               ip_categoryId = none_to_null (pb_categoryId data),
                               ip_name = pb_name data,
                               ip_description = pb_description data,
                               ip_price = pb_price data,
                               ip_imageUrl = map_option upload_url file,
                               ip_isActive = pb_isActive data,
                               ip_order = pb_order data\<rparr> of
                         Inl e \<Rightarrow> (Fail 400 (Thrown e), db)
                       | Inr (product, db') \<Rightarrow> (Json product, db')))))"

definition put_products ::
  "(string \<Rightarrow> string option) \<Rightarrow> database \<Rightarrow> timestamp \<Rightarrow> user option \<Rightarrow> ident
     \<Rightarrow> product_patch option \<Rightarrow> string option \<Rightarrow> product option response \<times> database" where
  "put_products numeric_in db now req_user i body file =
     (case req_user of
        None \<Rightarrow> (Fail 401 Unauthenticated, db)
      | Some user \<Rightarrow>
          (case getProduct db i of
             None \<Rightarrow> (Fail 404 ProductNotFound, db)
           | Some product \<Rightarrow>
               (case getRestaurantByUserId db (u_id user) of
                  None \<Rightarrow> (Fail 403 NotOwner, db)
                | Some restaurant \<Rightarrow>
                    if p_restaurantId product \<noteq> r_id restaurant then (Fail 403 NotOwner, db)
                    else
                      (case body of
                         None \<Rightarrow> (Fail 400 (Thrown ZodError), db)
                       | Some data \<Rightarrow>
                           (case updateProduct numeric_in db now i
                                   (data\<lparr>pp_categoryId := none_to_null (pp_categoryId data),
                                         pp_imageUrl :=
                                           (case file of
                                              None \<Rightarrow> pp_imageUrl data
                                            | Some f \<Rightarrow> Some (Some (upload_url f)))\<rparr>) of
                              Inl e \<Rightarrow> (Fail 400 (Thrown e), db)
                            | Inr (updatedProduct, db') \<Rightarrow> (Json updatedProduct, db'))))))"

definition delete_products ::
  "database \<Rightarrow> user option \<Rightarrow> ident \<Rightarrow> unit response \<times> database" where
  "delete_products db req_user i =
     (case req_user of
        None \<Rightarrow> (Fail 401 Unauthenticated, db)
      | Some user \<Rightarrow>
          (case getProduct db i of
             None \<Rightarrow> (Fail 404 ProductNotFound, db)
           | Some product \<Rightarrow>
               (case getRestaurantByUserId db (u_id user) of
                  None \<Rightarrow> (Fail 403 NotOwner, db)
                | Some restaurant \<Rightarrow>
                    if p_restaurantId product \<noteq> r_id restaurant then (Fail 403 NotOwner, db)
                    else (Json (), deleteProduct db i))))"

subsection \<open>GET /api/menu/:slug\<close>

record menu =
  m_restaurant :: restaurant
  m_products :: "product list"
  m_categories :: "category list"

definition get_menu ::
  "database \<Rightarrow> ident \<Rightarrow> timestamp \<Rightarrow> string \<Rightarrow> string option \<Rightarrow> string option
     \<Rightarrow> menu response \<times> database" where
  "get_menu db nid now slug userAgent ip =
     (case getRestaurantBySlug db slug of
        None \<Rightarrow> (Fail 404 MenuNotFound, db)
      | Some restaurant \<Rightarrow>
          let ps = getProductsByRestaurant db (r_id restaurant);
              cs = getCategoriesByRestaurant db (r_id restaurant)
          in (case recordMenuView db nid now (r_id restaurant) userAgent ip of
                Inl e \<Rightarrow> (Fail 500 (Thrown e), db)
              | Inr (view, db') \<Rightarrow>
                  (Json \<lparr>m_restaurant = restaurant, m_products = filter p_isActive ps,
                         m_categories = cs\<rparr>, db')))"

subsection \<open>POST /api/create-subscription\<close>

record upgrade =
  subscriptionId :: ident
  clientSecret :: "string option"

text \<open>A string column is truthy when it is neither \<^verbatim>\<open>null\<close> nor empty.\<close>

definition truthy :: "string option \<Rightarrow> bool" where
  "truthy s = (case s of None \<Rightarrow> False | Some x \<Rightarrow> x \<noteq> [])"

definition create_subscription ::
  "bool \<Rightarrow> database \<Rightarrow> stripe \<Rightarrow> provider \<Rightarrow> user option
     \<Rightarrow> upgrade response \<times> database \<times> stripe" where
  "create_subscription configured db st pr req_user =
     (case req_user of
        None \<Rightarrow> (SendStatus 401, db, st)
      | Some user \<Rightarrow>
          if \<not> configured then (Fail 503 ServiceUnavailable, db, st)
          else if truthy (u_stripeSubscriptionId user) then
            (case subscriptions_retrieve st pr (the (u_stripeSubscriptionId user)) of
               Inl e \<Rightarrow> (Unhandled e, db, st)
             | Inr s \<Rightarrow>
                 (Json \<lparr>subscriptionId = sub_id s, clientSecret = sub_clientSecret s\<rparr>, db, st))
          else if u_email user = [] then (Unhandled NoEmailOnFile, db, st)
          else
            (case customers_create st pr (u_email user) of
               Inl e \<Rightarrow> (Fail 400 (Thrown e), db, st)
             | Inr (customer, st1) \<Rightarrow>
                 (case updateUser db (u_id user) customer of
                    (user1, db1) \<Rightarrow>
                      (case products_create st1 pr of
                         Inl e \<Rightarrow> (Fail 400 (Thrown e), db1, st1)
                       | Inr (product, st2) \<Rightarrow>
                           (case prices_create st2 pr product of
                              Inl e \<Rightarrow> (Fail 400 (Thrown e), db1, st2)
                            | Inr (price, st3) \<Rightarrow>
                                (case subscriptions_create st3 pr customer price of
                                   Inl e \<Rightarrow> (Fail 400 (Thrown e), db1, st3)
                                 | Inr (s, st4) \<Rightarrow>
                                     (case user1 of
                                        None \<Rightarrow> (Fail 400 (Thrown TypeError), db1, st4)
                                      | Some u \<Rightarrow>
                                          (Json \<lparr>subscriptionId = sub_id s,
                                                 clientSecret = sub_clientSecret s\<rparr>,
                                           snd (updateUserStripeInfo db1 (u_id u) customer
                                                  (sub_id s)),
                                           st4))))))))"

section \<open>Preconditions, sequences of requests and example stores\<close>

text \<open>
  A category reference that the database accepts: absent, \<^verbatim>\<open>null\<close>, or the id of a
  stored category.
\<close>

definition category_ok :: "database \<Rightarrow> ident option option \<Rightarrow> bool" where
  "category_ok db c = (case c of Some (Some cid) \<Rightarrow> category_exists db cid | _ \<Rightarrow> True)"

text \<open>A price that the database accepts (or none), a sort order that fits the column (or none).\<close>

definition price_ok :: "(string \<Rightarrow> string option) \<Rightarrow> string option \<Rightarrow> bool" where
  "price_ok numeric_in x = (case x of None \<Rightarrow> True | Some s \<Rightarrow> numeric_in s \<noteq> None)"

definition order_ok :: "int option \<Rightarrow> bool" where
  "order_ok x = (case x of None \<Rightarrow> True | Some n \<Rightarrow> int4_ok n)"

definition is_Json :: "'a response \<Rightarrow> bool" where
  "is_Json r = (case r of Json _ \<Rightarrow> True | _ \<Rightarrow> False)"

text \<open>A client that fetches the same public menu once per element of a list.\<close>

fun get_menu_seq ::
  "database \<Rightarrow> string \<Rightarrow> (ident \<times> timestamp \<times> string option \<times> string option) list
     \<Rightarrow> menu response list \<times> database" where
  "get_menu_seq db slug [] = ([], db)"
| "get_menu_seq db slug ((nid, now, userAgent, ip) # reqs) =
     (case get_menu db nid now slug userAgent ip of
        (resp, db1) \<Rightarrow>
          (case get_menu_seq db1 slug reqs of (resps, db2) \<Rightarrow> (resp # resps, db2)))"

text \<open>
  A small store: a free identity \<open>u1\<close> owning restaurant \<open>r1\<close> with five active
  products and an inactive one, a premium identity \<open>u2\<close> owning \<open>r2\<close>, two categories
  of \<open>r1\<close> (the second one without products) and one recorded view.
\<close>

definition mk_product :: "ident \<Rightarrow> ident \<Rightarrow> bool \<Rightarrow> product" where
  "mk_product i rid active =
     \<lparr>p_id = i, p_restaurantId = rid, p_categoryId = Some ''c1'', p_name = ''Dish'',
      p_description = None, p_price = ''9.90'', p_imageUrl = None, p_isActive = active,
      p_order = 0, p_createdAt = Some 0, p_updatedAt = Some 0\<rparr>"

definition mk_restaurant :: "ident \<Rightarrow> ident \<Rightarrow> string \<Rightarrow> string \<Rightarrow> restaurant" where
  "mk_restaurant i uid name slug =
     \<lparr>r_id = i, r_userId = uid, r_name = name, r_description = None, r_address = None,
      r_phone = None, r_hours = None, r_logoUrl = None, r_primaryColor = Some ''#059669'',
      r_menuStyle = Some ''cards'', r_slug = slug, r_createdAt = Some 0,
      r_updatedAt = Some 0\<rparr>"

definition ex_user :: user where
  "ex_user = \<lparr>u_id = ''u1'', u_email = ''joe@example.com'', u_password = ''h1'',
     u_plan = ''free'', u_stripeCustomerId = None, u_stripeSubscriptionId = None,
     u_subscriptionStatus = None, u_subscriptionEndsAt = None, u_createdAt = Some 0\<rparr>"

definition ex_premium :: user where
  "ex_premium = \<lparr>u_id = ''u2'', u_email = ''ann@example.com'', u_password = ''h2'',
     u_plan = ''premium'', u_stripeCustomerId = Some ''cus_1'',
     u_stripeSubscriptionId = Some ''sub_1'', u_subscriptionStatus = Some ''active'',
     u_subscriptionEndsAt = None, u_createdAt = Some 0\<rparr>"

definition ex_restaurant :: restaurant where
  "ex_restaurant = mk_restaurant ''r1'' ''u1'' ''Joes Diner'' ''joes-diner''"

definition ex_db :: database where
  "ex_db =
     \<lparr>users = [ex_user, ex_premium],
      restaurants = [ex_restaurant, mk_restaurant ''r2'' ''u2'' ''Cafe'' ''cafe''],
      categories = [\<lparr>c_id = ''c1'', c_restaurantId = ''r1'', c_name = ''Food'', c_order = 0\<rparr>,
                    \<lparr>c_id = ''c2'', c_restaurantId = ''r1'', c_name = ''Drinks'', c_order = 1\<rparr>],
      products = [mk_product ''p1'' ''r1'' True, mk_product ''p2'' ''r1'' True,
                  mk_product ''p3'' ''r1'' True, mk_product ''p4'' ''r1'' True,
                  mk_product ''p5'' ''r1'' True, mk_product ''p6'' ''r1'' False,
                  mk_product ''p7'' ''r2'' True],
      menuViews = [\<lparr>v_id = ''v1'', v_restaurantId = ''r1'', v_viewedAt = Some 0,
                     v_userAgent = None, v_ipAddress = None\<rparr>]\<rparr>"

definition ex_stripe :: stripe where
  "ex_stripe =
     \<lparr>st_customers = [(''cus_1'', ''ann@example.com'')],
      st_products = [''prod_1''],
      st_prices = [(''price_1'', ''prod_1'')],
      st_subscriptions = [\<lparr>sub_id = ''sub_1'', sub_customer = ''cus_1'', sub_price = ''price_1'',
                            sub_clientSecret = Some ''secret_1''\<rparr>]\<rparr>"

text \<open>A provider that answers every call of the upgrade of \<open>u1\<close>.\<close>

definition ex_provider :: provider where
  "ex_provider =
     \<lparr>pr_retrieve_error = None, pr_customer = Inr ''cus_2'', pr_product = Inr ''prod_2'',
      pr_price = Inr ''price_2'', pr_subscription = Inr (''sub_2'', Some ''secret_2'')\<rparr>"

text \<open>The identity \<open>u1\<close>, the store and the provider after that upgrade.\<close>

definition ex_upgraded :: user where
  "ex_upgraded = ex_user\<lparr>u_stripeCustomerId := Some ''cus_2'',
     u_stripeSubscriptionId := Some ''sub_2'', u_plan := ''premium'',
     u_subscriptionStatus := Some ''active''\<rparr>"

definition ex_db1 :: database where
  "ex_db1 = ex_db\<lparr>users := [ex_upgraded, ex_premium]\<rparr>"

definition ex_stripe1 :: stripe where
  "ex_stripe1 =
     \<lparr>st_customers = [(''cus_1'', ''ann@example.com''), (''cus_2'', ''joe@example.com'')],
      st_products = [''prod_1'', ''prod_2''],
      st_prices = [(''price_1'', ''prod_1''), (''price_2'', ''prod_2'')],
      st_subscriptions = [\<lparr>sub_id = ''sub_1'', sub_customer = ''cus_1'', sub_price = ''price_1'',
                            sub_clientSecret = Some ''secret_1''\<rparr>,
                          \<lparr>sub_id = ''sub_2'', sub_customer = ''cus_2'', sub_price = ''price_2'',
                            sub_clientSecret = Some ''secret_2''\<rparr>]\<rparr>"

text \<open>
  A registration whose restaurant name derives the slug that \<open>r1\<close> already has, and the
  identity row it inserts.
\<close>

definition ex_hash :: "string \<Rightarrow> string" where
  "ex_hash password = ''#'' @ password"

definition ex_register_body :: register_body where
  "ex_register_body =
     \<lparr>rb_email = Some ''new@example.com'', rb_password = Some ''pw'',
      rb_restaurantName = Some ''Joes Diner''\<rparr>"

definition ex_new_user :: user where
  "ex_new_user = \<lparr>u_id = ''u3'', u_email = ''new@example.com'', u_password = ''#pw'',
     u_plan = ''free'', u_stripeCustomerId = None, u_stripeSubscriptionId = None,
     u_subscriptionStatus = None, u_subscriptionEndsAt = None, u_createdAt = Some 1\<rparr>"

text \<open>
  A stand-in for the database's numeric input in the examples. It accepts an unsigned
  decimal without leading zeros, with at most eight digits before the point and none or
  exactly two after it, and returns it with two decimals, as the database does on these
  strings; it rejects every other string.
\<close>

definition is_digit :: "char \<Rightarrow> bool" where
  "is_digit c = (c \<in> set ''0123456789'')"

definition ex_numeric_in :: "string \<Rightarrow> string option" where
  "ex_numeric_in s =
     (let a = takeWhile is_digit s; b = dropWhile is_digit s in
      if a = [] \<or> 8 < length a \<or> (1 < length a \<and> hd a = CHR ''0'') then None
      else if b = [] then Some (a @ ''.00'')
      else if hd b = CHR ''.'' \<and> length (tl b) = 2 \<and> list_all is_digit (tl b) then Some s
      else None)"

text \<open>A creation body and two patches that set the active flag, one with a price that is no number.\<close>

definition ex_product_body :: product_body where
  "ex_product_body =
     \<lparr>pb_categoryId = Some (Some ''none''), pb_name = ''Soup'', pb_description = None,
      pb_price = ''9.90'', pb_imageUrl = None, pb_isActive = None, pb_order = None\<rparr>"

definition ex_patch :: product_patch where
  "ex_patch =
     \<lparr>pp_categoryId = None, pp_name = None, pp_description = None, pp_price = Some ''9.90'',
      pp_imageUrl = None, pp_isActive = Some True, pp_order = None\<rparr>"

definition ex_bad_patch :: product_patch where
  "ex_bad_patch = ex_patch\<lparr>pp_price := Some ''abc''\<rparr>"

lemmas ex_defs =
  ex_db_def ex_user_def ex_premium_def ex_restaurant_def mk_restaurant_def mk_product_def

lemmas ex_billing_defs = ex_stripe_def ex_provider_def ex_upgraded_def ex_db1_def ex_stripe1_def

section \<open>Auxiliary facts\<close>

lemma find_Some_D: "find P xs = Some x \<Longrightarrow> x \<in> set xs \<and> P x"
  by (induction xs) (auto split: if_splits)

lemma mset_insort_by: "mset (insort_by le x xs) = add_mset x (mset xs)"
  by (induction xs) auto

lemma mset_sort_by: "mset (sort_by le xs) = mset xs"
  by (induction xs) (auto simp: sort_by_def mset_insort_by)

lemma set_sort_by: "set (sort_by le xs) = set xs"
  using mset_sort_by [of le xs] by (metis set_mset_mset)

lemma find_None_D: "find P xs = None \<Longrightarrow> \<not> (\<exists>x \<in> set xs. P x)"
  by (simp add: find_None_iff)

lemma find_map_upd:
  assumes "\<And>x. k (f x) = k x"
  shows "find (\<lambda>x. k x = i) (map (\<lambda>x. if k x = i then f x else x) xs)
           = map_option f (find (\<lambda>x. k x = i) xs)"
  by (induction xs) (auto simp: assms)

lemma find_append_Some:
  "find P (xs @ [y]) = (case find P xs of Some x \<Rightarrow> Some x | None \<Rightarrow> if P y then Some y else None)"
  by (induction xs) auto

lemma filter_map_mono:
  assumes "\<And>x. x \<in> set xs \<Longrightarrow> Q x \<Longrightarrow> Q (f x)"
  shows "length (filter Q xs) \<le> length (filter Q (map f xs))"
  using assms by (induction xs) auto

lemma filter_map_grows:
  assumes "\<And>x. x \<in> set xs \<Longrightarrow> Q x \<Longrightarrow> Q (f x)"
      and "y \<in> set xs" and "\<not> Q y" and "Q (f y)"
  shows "length (filter Q xs) < length (filter Q (map f xs))"
  using assms
proof (induction xs)
  case Nil
  then show ?case by simp
next
  case (Cons x xs)
  have mono: "length (filter Q xs) \<le> length (filter Q (map f xs))"
    using Cons.prems(1) by (intro filter_map_mono) auto
  show ?case
  proof (cases "y = x")
    case True
    then show ?thesis using Cons.prems(3,4) mono by simp
  next
    case False
    then have "y \<in> set xs" using Cons.prems(2) by simp
    then have "length (filter Q xs) < length (filter Q (map f xs))"
      using Cons.IH Cons.prems by auto
    then show ?thesis using Cons.prems(1) [of x] by auto
  qed
qed

subsection \<open>Prices that the database rejects\<close>

lemma ex_numeric_in_values:
  "ex_numeric_in ''9.90'' = Some ''9.90''"
  "ex_numeric_in ''abc'' = None"
  by code_simp+

lemma createProduct_rejected_price:
  "numeric_in (ip_price ins) = None \<Longrightarrow>
     createProduct numeric_in db nid now ins = Inl (DataException ''price'')"
  by (simp add: createProduct_def)

lemma updateProduct_rejected_price:
  "pp_price d = Some s \<Longrightarrow> numeric_in s = None \<Longrightarrow>
     updateProduct numeric_in db now i d = Inl (DataException ''price'')"
  by (simp add: updateProduct_def patch_price_def)

text \<open>
  A creation request that passes the plan limit with a price that the database rejects
  is answered 400, and nothing is inserted; so is an update request of the owner, and the
  product stays as it was.
\<close>

lemma post_products_rejected_price:
  assumes "getRestaurantByUserId db (u_id user) = Some r"
      and "u_plan user \<noteq> ''free'' \<or> getProductCount db (r_id r) < 5"
      and "numeric_in (pb_price data) = None"
  shows "post_products numeric_in db nid now (Some user) (Some data) file
           = (Fail 400 (Thrown (DataException ''price'')), db)"
  using assms by (auto simp: post_products_def createProduct_rejected_price)

lemma put_products_rejected_price:
  assumes "getRestaurantByUserId db (u_id user) = Some r"
      and "getProduct db i = Some p"
      and "p_restaurantId p = r_id r"
      and "pp_price data = Some s"
      and "numeric_in s = None"
  shows "put_products numeric_in db now (Some user) i (Some data) file
           = (Fail 400 (Thrown (DataException ''price'')), db)"
  using assms by (simp add: put_products_def updateProduct_rejected_price)

lemma ex_put_bad_price:
  "put_products ex_numeric_in ex_db 1 (Some ex_user) ''p6'' (Some ex_bad_patch) None
     = (Fail 400 (Thrown (DataException ''price'')), ex_db)"
  by (rule put_products_rejected_price [where r = ex_restaurant
        and p = "mk_product ''p6'' ''r1'' False" and s = "''abc''"])
     (simp_all add: ex_defs ex_bad_patch_def ex_patch_def getRestaurantByUserId_def
        getProduct_def ex_numeric_in_values)

lemma ex_post_bad_price:
  "post_products ex_numeric_in ex_db ''p8'' 1 (Some ex_premium)
     (Some (ex_product_body\<lparr>pb_price := ''abc''\<rparr>)) None
     = (Fail 400 (Thrown (DataException ''price'')), ex_db)"
  by (rule post_products_rejected_price [where r = "mk_restaurant ''r2'' ''u2'' ''Cafe'' ''cafe''"])
     (simp_all add: ex_defs ex_product_body_def getRestaurantByUserId_def ex_numeric_in_values)

subsection \<open>Slug derivation: the final trim never removes anything\<close>

lemma replace_runs_chars:
  "c \<in> set (replace_runs P s) \<Longrightarrow> c = CHR ''-'' \<or> (c \<in> set s \<and> \<not> P c)"
proof (induction P s rule: replace_runs.induct)
  case (1 P)
  then show ?case by simp
next
  case (2 P d cs)
  then show ?case
    by (auto split: if_splits dest: set_dropWhileD)
qed

lemma dropWhile_none: "\<forall>x \<in> set xs. \<not> P x \<Longrightarrow> dropWhile P xs = xs"
  by (cases xs) auto

lemma trim_no_space: "\<forall>x \<in> set xs. \<not> is_space x \<Longrightarrow> trim xs = xs"
  by (simp add: trim_def dropWhile_none)

lemma generateSlug_trim_noop:
  "generateSlug name =
     replace_runs is_hyphen (replace_runs is_space (filter is_slug_char (toLowerCase name)))"
proof -
  let ?s = "replace_runs is_space (filter is_slug_char (toLowerCase name))"
  have hy: "\<not> is_space CHR ''-''"
    by (simp add: is_space_def)
  have "\<not> is_space c" if "c \<in> set ?s" for c
    using replace_runs_chars [OF that] hy by auto
  then have "\<not> is_space c" if "c \<in> set (replace_runs is_hyphen ?s)" for c
    using replace_runs_chars [OF that] hy by auto
  then show ?thesis
    by (simp add: generateSlug_def trim_no_space)
qed

subsection \<open>The public menu handler and the view log\<close>

lemma get_menu_restaurants: "restaurants (snd (get_menu db nid now slug ua ip)) = restaurants db"
  by (auto simp: get_menu_def recordMenuView_def Let_def split: option.splits)

lemma get_menu_slug_stable:
  "getRestaurantBySlug (snd (get_menu db nid now slug ua ip)) s = getRestaurantBySlug db s"
  by (simp add: getRestaurantBySlug_def get_menu_restaurants)

lemma get_menu_failure:
  assumes "getRestaurantBySlug db slug = Some r"
      and "recordMenuView db nid now (r_id r) ua ip = Inl e"
  shows "get_menu db nid now slug ua ip = (Fail 500 (Thrown e), db)"
  using assms by (simp add: get_menu_def Let_def)

lemma get_menu_success:
  assumes "getRestaurantBySlug db slug = Some r"
      and "get_menu db nid now slug ua ip = (Json m, db')"
  shows "\<exists>v. db' = db\<lparr>menuViews := menuViews db @ [v]\<rparr> \<and> v_restaurantId v = r_id r"
  using assms
  by (auto simp: get_menu_def recordMenuView_def Let_def split: if_splits)

lemma get_menu_count:
  assumes "getRestaurantBySlug db slug = Some r"
      and "is_Json (fst (get_menu db nid now slug ua ip))"
  shows "getMenuViewCount (snd (get_menu db nid now slug ua ip)) (r_id r)
           = Suc (getMenuViewCount db (r_id r))"
proof -
  obtain m db' where res: "get_menu db nid now slug ua ip = (Json m, db')"
    using assms(2) by (cases "get_menu db nid now slug ua ip") (auto simp: is_Json_def split: response.splits)
  from get_menu_success [OF assms(1) res] show ?thesis
    using res by (auto simp: getMenuViewCount_def)
qed

lemma get_menu_seq_count:
  assumes "getRestaurantBySlug db slug = Some r"
      and "list_all is_Json (fst (get_menu_seq db slug reqs))"
  shows "getMenuViewCount (snd (get_menu_seq db slug reqs)) (r_id r)
           = getMenuViewCount db (r_id r) + length reqs"
  using assms
proof (induction reqs arbitrary: db)
  case Nil
  then show ?case by simp
next
  case (Cons q reqs)
  obtain nid now ua ip where q: "q = (nid, now, ua, ip)" by (cases q) auto
  let ?db1 = "snd (get_menu db nid now slug ua ip)"
  have ok: "is_Json (fst (get_menu db nid now slug ua ip))"
    and rest: "list_all is_Json (fst (get_menu_seq ?db1 slug reqs))"
    using Cons.prems(2) q by (auto split: prod.splits)
  have slug1: "getRestaurantBySlug ?db1 slug = Some r"
    using Cons.prems(1) by (simp add: get_menu_slug_stable)
  have "getMenuViewCount (snd (get_menu_seq ?db1 slug reqs)) (r_id r)
          = getMenuViewCount ?db1 (r_id r) + length reqs"
    using Cons.IH [OF slug1 rest] .
  moreover have "snd (get_menu_seq db slug (q # reqs)) = snd (get_menu_seq ?db1 slug reqs)"
    using q by (auto split: prod.splits)
  ultimately show ?case
    using get_menu_count [OF Cons.prems(1) ok] by simp
qed

subsection \<open>The upgrade handler\<close>

lemma getUser_updateUser:
  "getUser (snd (updateUser db i c)) i
     = map_option (\<lambda>u. u\<lparr>u_stripeCustomerId := Some c\<rparr>) (getUser db i)"
  using find_map_upd [of u_id "\<lambda>u. u\<lparr>u_stripeCustomerId := Some c\<rparr>" i "users db"]
  by (simp add: updateUser_def getUser_def Let_def)

lemma fst_updateUser: "fst (updateUser db i c) = getUser (snd (updateUser db i c)) i"
  by (simp add: updateUser_def Let_def)

lemma getUser_updateUserStripeInfo:
  "getUser (snd (updateUserStripeInfo db i c s)) i
     = map_option (\<lambda>u. u\<lparr>u_stripeCustomerId := Some c, u_stripeSubscriptionId := Some s,
                           u_plan := ''premium'', u_subscriptionStatus := Some ''active''\<rparr>)
         (getUser db i)"
  using find_map_upd [of u_id "\<lambda>u. u\<lparr>u_stripeCustomerId := Some c,
      u_stripeSubscriptionId := Some s, u_plan := ''premium'',
      u_subscriptionStatus := Some ''active''\<rparr>" i "users db"]
  by (simp add: updateUserStripeInfo_def getUser_def Let_def)

text \<open>The creation path, when the provider answers every call.\<close>

lemma create_subscription_created:
  assumes "getUser db (u_id user) = Some user"
      and "\<not> truthy (u_stripeSubscriptionId user)"
      and "u_email user \<noteq> []"
      and "pr_customer pr = Inr cid"
      and "pr_product pr = Inr prd"
      and "pr_price pr = Inr price"
      and "pr_subscription pr = Inr (sid, secret)"
  shows "create_subscription True db st pr (Some user) =
           (Json \<lparr>subscriptionId = sid, clientSecret = secret\<rparr>,
            snd (updateUserStripeInfo (snd (updateUser db (u_id user) cid)) (u_id user) cid sid),
            st\<lparr>st_customers := st_customers st @ [(cid, u_email user)],
               st_products := st_products st @ [prd],
               st_prices := st_prices st @ [(price, prd)],
               st_subscriptions := st_subscriptions st @
                 [\<lparr>sub_id = sid, sub_customer = cid, sub_price = price,
                   sub_clientSecret = secret\<rparr>]\<rparr>)"
proof -
  obtain u1 db1 where upd: "updateUser db (u_id user) cid = (u1, db1)"
    by (cases "updateUser db (u_id user) cid") auto
  have u1: "u1 = Some (user\<lparr>u_stripeCustomerId := Some cid\<rparr>)"
    using fst_updateUser [of db "u_id user" cid] getUser_updateUser [of db "u_id user" cid]
      assms(1) upd by simp
  show ?thesis
    using assms(2-7) upd u1
    by (simp add: create_subscription_def customers_create_def products_create_def
          prices_create_def subscriptions_create_def Let_def)
qed

lemma ex_first_upgrade:
  "create_subscription True ex_db ex_stripe ex_provider (Some ex_user)
     = (Json \<lparr>subscriptionId = ''sub_2'', clientSecret = Some ''secret_2''\<rparr>, ex_db1, ex_stripe1)"
  by (simp add: create_subscription_def customers_create_def products_create_def
        prices_create_def subscriptions_create_def updateUser_def updateUserStripeInfo_def
        getUser_def truthy_def Let_def ex_billing_defs ex_defs)

lemma ex_slug: "generateSlug ''Joes Diner'' = ''joes-diner''"
  by code_simp

section \<open>Plan limit on product creation\<close>

text \<open>
  C1. For an identity that owns a restaurant, with \<open>N\<close> the number of active products of
  that restaurant: on the free plan the creation request is answered with the plan-limit
  denial exactly when \<open>N \<ge> 5\<close>, and then the store is unchanged; on the premium plan it is
  never answered with the plan-limit denial, whatever \<open>N\<close> is. A request that passes the
  limit check (premium, or free with \<open>N < 5\<close>) inserts the product for that restaurant,
  when its body is one that the schema accepts, with a price and a sort order that the
  database accepts and an acceptable category reference, and the generated id is fresh.
\<close>

theorem post_products_plan_limit:
  assumes "getRestaurantByUserId db (u_id user) = Some r"
  shows "(u_plan user = ''free'' \<longrightarrow>
            ((fst (post_products numeric_in db nid now (Some user) body file)
                = Fail 400 PlanLimitExceeded)
               = (5 \<le> getProductCount db (r_id r))) \<and>
            (5 \<le> getProductCount db (r_id r) \<longrightarrow>
               snd (post_products numeric_in db nid now (Some user) body file) = db)) \<and>
         (u_plan user = ''premium'' \<longrightarrow>
            fst (post_products numeric_in db nid now (Some user) body file)
              \<noteq> Fail 400 PlanLimitExceeded) \<and>
         ((u_plan user = ''premium'' \<or> (u_plan user = ''free'' \<and> getProductCount db (r_id r) < 5)) \<and>
          body = Some data \<and> nid \<notin> p_id ` set (products db) \<and>
          numeric_in (pb_price data) \<noteq> None \<and> order_ok (pb_order data) \<and>
          category_ok db (none_to_null (pb_categoryId data)) \<longrightarrow>
            (\<exists>p. post_products numeric_in db nid now (Some user) body file =
                    (Json p, db\<lparr>products := products db @ [p]\<rparr>) \<and>
                  p_id p = nid \<and> p_restaurantId p = r_id r \<and>
                  Some (p_price p) = numeric_in (pb_price data)))"
proof -
  have r_in: "\<exists>x \<in> set (restaurants db). r_id x = r_id r"
    using assms find_Some_D [of _ "restaurants db" r]
    by (auto simp: getRestaurantByUserId_def)
  show ?thesis
    using assms r_in
    by (auto simp: post_products_def createProduct_def category_ok_def order_ok_def Let_def
             split: option.splits sum.splits prod.splits)
qed

theorem post_products_plan_limit_witness:
  "fst (post_products ex_numeric_in ex_db ''p8'' 1 (Some ex_user) (Some ex_product_body) None)
     = Fail 400 PlanLimitExceeded \<and>
   snd (post_products ex_numeric_in ex_db ''p8'' 1 (Some ex_user) (Some ex_product_body) None)
     = ex_db \<and>
   getProductCount ex_db ''r1'' = 5 \<and>
   (\<exists>p. post_products ex_numeric_in ex_db ''p8'' 1 (Some ex_premium) (Some ex_product_body) None
           = (Json p, ex_db\<lparr>products := products ex_db @ [p]\<rparr>) \<and>
         p_id p = ''p8'' \<and> p_restaurantId p = ''r2'' \<and> p_price p = ''9.90'')"
proof -
  have free: "getRestaurantByUserId ex_db (u_id ex_user) = Some ex_restaurant"
    and prem: "getRestaurantByUserId ex_db (u_id ex_premium)
                 = Some (mk_restaurant ''r2'' ''u2'' ''Cafe'' ''cafe'')"
    by (simp_all add: ex_defs getRestaurantByUserId_def)
  have n: "getProductCount ex_db ''r1'' = 5"
    by (simp add: ex_defs getProductCount_def)
  have ok: "ex_numeric_in (pb_price ex_product_body) = Some ''9.90''"
    "order_ok (pb_order ex_product_body)"
    "category_ok ex_db (none_to_null (pb_categoryId ex_product_body))"
    "''p8'' \<notin> p_id ` set (products ex_db)"
    by (simp_all add: ex_product_body_def ex_numeric_in_values order_ok_def category_ok_def
          none_to_null_def ex_defs)
  from post_products_plan_limit [OF free, of ex_numeric_in "''p8''" 1 "Some ex_product_body" None]
    post_products_plan_limit [OF prem, of ex_numeric_in "''p8''" 1 "Some ex_product_body" None
      ex_product_body]
    n ok
  show ?thesis
    by (simp add: ex_defs)
qed

section \<open>Tenant ownership on product update and delete\<close>

text \<open>
  C2. When the product addressed by an update or a delete request exists and its
  restaurant is not the restaurant of the authenticated identity (or the identity has no
  restaurant), both routes answer 403 with the not-owner denial, whatever the identity's
  plan is, and the store, hence the product, is unchanged.
\<close>

theorem cross_tenant_denied:
  assumes "getProduct db i = Some p"
      and "case getRestaurantByUserId db (u_id user) of
             None \<Rightarrow> True | Some r \<Rightarrow> p_restaurantId p \<noteq> r_id r"
  shows "put_products numeric_in db now (Some user) i body file = (Fail 403 NotOwner, db) \<and>
         delete_products db (Some user) i = (Fail 403 NotOwner, db) \<and>
         getProduct (snd (put_products numeric_in db now (Some user) i body file)) i = Some p \<and>
         getProduct (snd (delete_products db (Some user) i)) i = Some p"
  using assms
  by (auto simp: put_products_def delete_products_def split: option.splits)

theorem cross_tenant_denied_witness:
  "u_plan ex_premium = ''premium'' \<and>
   put_products ex_numeric_in ex_db 1 (Some ex_premium) ''p1'' (Some ex_patch) None
     = (Fail 403 NotOwner, ex_db) \<and>
   delete_products ex_db (Some ex_premium) ''p1'' = (Fail 403 NotOwner, ex_db)"
  using cross_tenant_denied [of ex_db "''p1''" "mk_product ''p1'' ''r1'' True" ex_premium
      ex_numeric_in 1 "Some ex_patch" None]
  by (simp add: ex_defs getRestaurantByUserId_def getProduct_def)

section \<open>Upgrade: idempotence\<close>

text \<open>
  C3. After a successful upgrade request of a stored identity (one that created the
  subscription, or one that already re-fetched a recorded one) the identity has the
  returned subscription id on record, and the next upgrade request of that identity, as
  the session reloads it from the store, re-fetches that subscription and returns the
  same subscription id; the store and the provider's customers, products, prices and
  subscriptions are left as they were. The provider's ids are not empty and its retrieval
  answers.
\<close>

theorem create_subscription_idempotent:
  assumes "getUser db (u_id user) = Some user"
      and "create_subscription True db st pr (Some user) = (Json up, db1, st1)"
      and "subscriptionId up \<noteq> []"
      and "pr_retrieve_error pr2 = None"
  shows "\<exists>s. create_subscription True db1 st1 pr2 (getUser db1 (u_id user)) =
               (Json \<lparr>subscriptionId = subscriptionId up, clientSecret = sub_clientSecret s\<rparr>,
                db1, st1) \<and>
             find (\<lambda>x. sub_id x = subscriptionId up) (st_subscriptions st1) = Some s \<and>
             map_option u_stripeSubscriptionId (getUser db1 (u_id user))
               = Some (Some (subscriptionId up))"
proof (cases "truthy (u_stripeSubscriptionId user)")
  case True
  then obtain sid where sid: "u_stripeSubscriptionId user = Some sid" "sid \<noteq> []"
    by (auto simp: truthy_def split: option.splits)
  from assms(2) True sid obtain s where
    s: "find (\<lambda>x. sub_id x = sid) (st_subscriptions st) = Some s"
    and up: "up = \<lparr>subscriptionId = sub_id s, clientSecret = sub_clientSecret s\<rparr>"
    and same: "db1 = db" "st1 = st"
    by (auto simp: create_subscription_def subscriptions_retrieve_def
             split: option.splits sum.splits)
  have sid_eq: "sub_id s = sid"
    using find_Some_D [OF s] by simp
  show ?thesis
    using assms(1,4) True sid s up same sid_eq
    by (intro exI [of _ s]) (simp add: create_subscription_def subscriptions_retrieve_def)
next
  case False
  from assms(2) False obtain cid prd price sid secret where
    pr: "pr_customer pr = Inr cid" "pr_product pr = Inr prd" "pr_price pr = Inr price"
        "pr_subscription pr = Inr (sid, secret)"
    and email: "u_email user \<noteq> []"
    by (auto simp: create_subscription_def customers_create_def products_create_def
          prices_create_def subscriptions_create_def Let_def
          split: if_splits sum.splits prod.splits option.splits)
  note created = create_subscription_created [OF assms(1) False email pr, of st]
  from created assms(2) have
    up: "up = \<lparr>subscriptionId = sid, clientSecret = secret\<rparr>"
    and db1: "db1 = snd (updateUserStripeInfo (snd (updateUser db (u_id user) cid)) (u_id user) cid sid)"
    and subs: "st_subscriptions st1 = st_subscriptions st @
                 [\<lparr>sub_id = sid, sub_customer = cid, sub_price = price, sub_clientSecret = secret\<rparr>]"
    by auto
  let ?user1 = "user\<lparr>u_stripeCustomerId := Some cid, u_stripeSubscriptionId := Some sid,
                      u_plan := ''premium'', u_subscriptionStatus := Some ''active''\<rparr>"
  have reload: "getUser db1 (u_id user) = Some ?user1"
    using assms(1) db1 by (simp add: getUser_updateUserStripeInfo getUser_updateUser)
  have "find (\<lambda>x. sub_id x = sid) (st_subscriptions st1) \<noteq> None"
    using subs by (simp add: find_append_Some split: option.splits)
  then obtain s where s: "find (\<lambda>x. sub_id x = sid) (st_subscriptions st1) = Some s"
    by blast
  have sid_eq: "sub_id s = sid"
    using find_Some_D [OF s] by simp
  have sid_ne: "sid \<noteq> []"
    using assms(3) up by simp
  show ?thesis
    using reload s sid_eq sid_ne up assms(4)
    by (intro exI [of _ s])
       (simp add: create_subscription_def subscriptions_retrieve_def truthy_def)
qed

theorem create_subscription_idempotent_witness:
  "\<exists>s. create_subscription True ex_db1 ex_stripe1 ex_provider (getUser ex_db1 (u_id ex_user)) =
          (Json \<lparr>subscriptionId =
                   subscriptionId \<lparr>subscriptionId = ''sub_2'', clientSecret = Some ''secret_2''\<rparr>,
                 clientSecret = sub_clientSecret s\<rparr>,
           ex_db1, ex_stripe1) \<and>
        find (\<lambda>x. sub_id x =
                subscriptionId \<lparr>subscriptionId = ''sub_2'', clientSecret = Some ''secret_2''\<rparr>)
          (st_subscriptions ex_stripe1) = Some s \<and>
        map_option u_stripeSubscriptionId (getUser ex_db1 (u_id ex_user))
          = Some (Some (subscriptionId
                          \<lparr>subscriptionId = ''sub_2'', clientSecret = Some ''secret_2''\<rparr>))"
  by (rule create_subscription_idempotent [where db = ex_db and st = ex_stripe and pr = ex_provider])
     (simp_all add: ex_first_upgrade, simp_all add: ex_defs ex_billing_defs getUser_def)

section \<open>Upgrade: the plan field\<close>

text \<open>
  C4 (as the code has it). For a stored identity without a recorded subscription and with
  an email, when the provider answers every call, the upgrade request succeeds and the
  stored identity then has the returned customer id and subscription id, the plan
  \<^verbatim>\<open>premium\<close> and the subscription status \<^verbatim>\<open>active\<close>; every other field is as
  before.
\<close>

theorem create_subscription_sets_premium:
  assumes "getUser db (u_id user) = Some user"
      and "\<not> truthy (u_stripeSubscriptionId user)"
      and "u_email user \<noteq> []"
      and "pr_customer pr = Inr cid"
      and "pr_product pr = Inr prd"
      and "pr_price pr = Inr price"
      and "pr_subscription pr = Inr (sid, secret)"
  shows "\<exists>db' st'. create_subscription True db st pr (Some user) =
                     (Json \<lparr>subscriptionId = sid, clientSecret = secret\<rparr>, db', st') \<and>
           getUser db' (u_id user) =
             Some (user\<lparr>u_stripeCustomerId := Some cid, u_stripeSubscriptionId := Some sid,
                        u_plan := ''premium'', u_subscriptionStatus := Some ''active''\<rparr>)"
proof -
  let ?db' = "snd (updateUserStripeInfo (snd (updateUser db (u_id user) cid)) (u_id user) cid sid)"
  have "getUser ?db' (u_id user) =
          Some (user\<lparr>u_stripeCustomerId := Some cid, u_stripeSubscriptionId := Some sid,
                     u_plan := ''premium'', u_subscriptionStatus := Some ''active''\<rparr>)"
    using assms(1) by (simp add: getUser_updateUserStripeInfo getUser_updateUser)
  then show ?thesis
    using create_subscription_created [OF assms, of st] by blast
qed

theorem create_subscription_sets_premium_witness:
  "\<exists>db' st'. create_subscription True ex_db ex_stripe ex_provider (Some ex_user) =
                (Json \<lparr>subscriptionId = ''sub_2'', clientSecret = Some ''secret_2''\<rparr>, db', st') \<and>
      getUser db' (u_id ex_user) =
        Some (ex_user\<lparr>u_stripeCustomerId := Some ''cus_2'',
                u_stripeSubscriptionId := Some ''sub_2'',
                u_plan := ''premium'', u_subscriptionStatus := Some ''active''\<rparr>)"
  by (rule create_subscription_sets_premium [where prd = "''prod_2''" and price = "''price_2''"])
     (simp_all add: ex_defs ex_billing_defs getUser_def truthy_def)

text \<open>
  The plan does not keep its value: the free identity \<open>u1\<close> is stored with the premium
  plan after its successful upgrade request.
\<close>

theorem create_subscription_plan_counterexample:
  "u_plan ex_user = ''free'' \<and>
   getUser ex_db ''u1'' = Some ex_user \<and>
   u_stripeSubscriptionId ex_user = None \<and>
   is_Json (fst (create_subscription True ex_db ex_stripe ex_provider (Some ex_user))) \<and>
   map_option u_plan
     (getUser (fst (snd (create_subscription True ex_db ex_stripe ex_provider (Some ex_user))))
        ''u1'') = Some ''premium''"
  by (simp add: ex_first_upgrade is_Json_def)
     (simp add: ex_defs ex_billing_defs getUser_def)

section \<open>Public projection\<close>

text \<open>
  C5. When the slug resolves to a stored restaurant and the view can be recorded, the
  public menu is returned for that restaurant; a product is in it exactly when it is a
  stored product of that restaurant with the active flag set (with the same multiplicity
  as in the store), and its categories are all the stored categories of that restaurant,
  whether or not any active product refers to them.
\<close>

theorem get_menu_projection:
  assumes "getRestaurantBySlug db slug = Some r"
      and "nid \<notin> v_id ` set (menuViews db)"
  shows "\<exists>m db'. get_menu db nid now slug userAgent ip = (Json m, db') \<and>
           m_restaurant m = r \<and>
           (\<forall>p. p \<in> set (m_products m) \<longleftrightarrow>
                  p \<in> set (products db) \<and> p_restaurantId p = r_id r \<and> p_isActive p) \<and>
           set (m_categories m) = {c \<in> set (categories db). c_restaurantId c = r_id r} \<and>
           mset (m_products m) =
             filter_mset (\<lambda>p. p_restaurantId p = r_id r \<and> p_isActive p) (mset (products db)) \<and>
           mset (m_categories m) =
             filter_mset (\<lambda>c. c_restaurantId c = r_id r) (mset (categories db))"
proof -
  have r_in: "\<exists>x \<in> set (restaurants db). r_id x = r_id r"
    using assms(1) find_Some_D [of _ "restaurants db" r]
    by (auto simp: getRestaurantBySlug_def)
  let ?v = "\<lparr>v_id = nid, v_restaurantId = r_id r, v_viewedAt = Some now,
              v_userAgent = userAgent, v_ipAddress = ip\<rparr>"
  let ?m = "\<lparr>m_restaurant = r,
              m_products = filter p_isActive (getProductsByRestaurant db (r_id r)),
              m_categories = getCategoriesByRestaurant db (r_id r)\<rparr>"
  have rec: "recordMenuView db nid now (r_id r) userAgent ip
               = Inr (?v, db\<lparr>menuViews := menuViews db @ [?v]\<rparr>)"
    using assms(2) r_in by (auto simp: recordMenuView_def Let_def)
  have res: "get_menu db nid now slug userAgent ip
               = (Json ?m, db\<lparr>menuViews := menuViews db @ [?v]\<rparr>)"
    using assms(1) rec by (simp add: get_menu_def Let_def)
  have ps: "mset (m_products ?m) =
             filter_mset (\<lambda>p. p_restaurantId p = r_id r \<and> p_isActive p) (mset (products db))"
    by (simp add: getProductsByRestaurant_def mset_sort_by filter_filter_mset)
  have cs: "mset (m_categories ?m) =
             filter_mset (\<lambda>c. c_restaurantId c = r_id r) (mset (categories db))"
    by (simp add: getCategoriesByRestaurant_def mset_sort_by)
  have ps_set: "\<forall>p. p \<in> set (m_products ?m) \<longleftrightarrow>
                  p \<in> set (products db) \<and> p_restaurantId p = r_id r \<and> p_isActive p"
    by (auto simp: getProductsByRestaurant_def set_sort_by)
  have cs_set: "set (m_categories ?m) = {c \<in> set (categories db). c_restaurantId c = r_id r}"
    by (auto simp: getCategoriesByRestaurant_def set_sort_by)
  show ?thesis
    using res ps cs ps_set cs_set by (intro exI [of _ ?m] exI conjI) simp_all
qed

theorem get_menu_projection_witness:
  "\<exists>m db'. get_menu ex_db ''v2'' 1 ''joes-diner'' None None = (Json m, db') \<and>
           m_restaurant m = ex_restaurant \<and>
           (\<forall>p. p \<in> set (m_products m) \<longleftrightarrow>
                  p \<in> set (products ex_db) \<and> p_restaurantId p = r_id ex_restaurant \<and>
                  p_isActive p) \<and>
           set (m_categories m) =
             {c \<in> set (categories ex_db). c_restaurantId c = r_id ex_restaurant} \<and>
           mset (m_products m) =
             filter_mset (\<lambda>p. p_restaurantId p = r_id ex_restaurant \<and> p_isActive p)
               (mset (products ex_db)) \<and>
           mset (m_categories m) =
             filter_mset (\<lambda>c. c_restaurantId c = r_id ex_restaurant) (mset (categories ex_db))"
  by (rule get_menu_projection) (simp_all add: ex_defs getRestaurantBySlug_def)

section \<open>Slug derivation\<close>

text \<open>
  C6. On the name \<^verbatim>\<open>Joe's Diner\<close> followed by two spaces, the derivation ends in a
  hyphen: the white space at the end has become a hyphen before the final trim, which
  removes white space only.
\<close>

theorem generateSlug_trailing_hyphen:
  "generateSlug ''Joe's Diner  '' = ''joes-diner-'' \<and>
   generateSlug ''Joe's Diner  '' \<noteq> ''joes-diner''"
  by code_simp

section \<open>View recording\<close>

text \<open>
  C7 (as the code has it). For a slug that resolves to a stored restaurant: a successful
  request appends exactly one view of that restaurant to the view log and changes nothing
  else, so the restaurant's view count grows by one, and by \<open>N\<close> over \<open>N\<close> successful
  requests in sequence; when recording the view fails, the request fails with status 500
  and the error, no menu is returned and the store is unchanged.
\<close>

theorem get_menu_view_recording:
  assumes "getRestaurantBySlug db slug = Some r"
  shows "(\<forall>e. recordMenuView db nid now (r_id r) userAgent ip = Inl e \<longrightarrow>
            get_menu db nid now slug userAgent ip = (Fail 500 (Thrown e), db)) \<and>
         (\<forall>m db'. get_menu db nid now slug userAgent ip = (Json m, db') \<longrightarrow>
            (\<exists>v. db' = db\<lparr>menuViews := menuViews db @ [v]\<rparr> \<and> v_restaurantId v = r_id r) \<and>
            getMenuViewCount db' (r_id r) = getMenuViewCount db (r_id r) + 1) \<and>
         (list_all is_Json (fst (get_menu_seq db slug reqs)) \<longrightarrow>
            getMenuViewCount (snd (get_menu_seq db slug reqs)) (r_id r)
              = getMenuViewCount db (r_id r) + length reqs)"
proof (intro conjI allI impI)
  fix e assume "recordMenuView db nid now (r_id r) userAgent ip = Inl e"
  then show "get_menu db nid now slug userAgent ip = (Fail 500 (Thrown e), db)"
    using assms by (rule get_menu_failure [rotated])
next
  fix m db' assume res: "get_menu db nid now slug userAgent ip = (Json m, db')"
  show "\<exists>v. db' = db\<lparr>menuViews := menuViews db @ [v]\<rparr> \<and> v_restaurantId v = r_id r"
    using get_menu_success [OF assms res] .
  show "getMenuViewCount db' (r_id r) = getMenuViewCount db (r_id r) + 1"
    using get_menu_count [OF assms, of nid now userAgent ip] res by (simp add: is_Json_def)
next
  assume "list_all is_Json (fst (get_menu_seq db slug reqs))"
  then show "getMenuViewCount (snd (get_menu_seq db slug reqs)) (r_id r)
               = getMenuViewCount db (r_id r) + length reqs"
    using assms by (rule get_menu_seq_count [rotated])
qed

theorem get_menu_view_recording_witness:
  "get_menu ex_db ''v1'' 1 ''joes-diner'' None None
     = (Fail 500 (Thrown (UniqueViolation ''menu_views_pkey'')), ex_db) \<and>
   getMenuViewCount
     (snd (get_menu_seq ex_db ''joes-diner'' [(''v2'', 1, None, None), (''v3'', 2, None, None)]))
     ''r1'' = 3"
  using get_menu_view_recording [of ex_db "''joes-diner''" ex_restaurant "''v1''" 1 None None
      "[(''v2'', 1, None, None), (''v3'', 2, None, None)]"]
  by (simp add: ex_defs getRestaurantBySlug_def recordMenuView_def get_menu_def Let_def
        is_Json_def getMenuViewCount_def)

text \<open>
  A request whose view cannot be recorded (the generated view id is already in the log)
  is not answered with the menu.
\<close>

theorem get_menu_view_failure_counterexample:
  "getRestaurantBySlug ex_db ''joes-diner'' = Some ex_restaurant \<and>
   recordMenuView ex_db ''v1'' 1 (r_id ex_restaurant) None None
     = Inl (UniqueViolation ''menu_views_pkey'') \<and>
   get_menu ex_db ''v1'' 1 ''joes-diner'' None None
     = (Fail 500 (Thrown (UniqueViolation ''menu_views_pkey'')), ex_db) \<and>
   \<not> is_Json (fst (get_menu ex_db ''v1'' 1 ''joes-diner'' None None))"
  by (simp add: ex_defs getRestaurantBySlug_def recordMenuView_def get_menu_def Let_def is_Json_def)

section \<open>Deleting a category\<close>

text \<open>
  C8. When a stored category is deleted, a stored product that referred to it is still
  found under its id, with a null category reference and every other field as before;
  no product row is added or removed.
\<close>

theorem deleteCategory_keeps_products:
  assumes "c \<in> set (categories db)"
      and "getProduct db i = Some p"
      and "p_categoryId p = Some (c_id c)"
  shows "getProduct (deleteCategory db (c_id c)) i = Some (p\<lparr>p_categoryId := None\<rparr>) \<and>
         map p_id (products (deleteCategory db (c_id c))) = map p_id (products db)"
proof -
  let ?f = "\<lambda>p. if p_categoryId p = Some (c_id c) then p\<lparr>p_categoryId := None\<rparr> else p"
  have ps: "products (deleteCategory db (c_id c)) = map ?f (products db)"
    using assms(1) by (auto simp: deleteCategory_def)
  have "find (\<lambda>x. p_id x = i) (map ?f xs)
          = map_option ?f (find (\<lambda>x. p_id x = i) xs)" for xs :: "product list"
    by (induction xs) auto
  then have "getProduct (deleteCategory db (c_id c)) i = Some (p\<lparr>p_categoryId := None\<rparr>)"
    using assms(2,3) ps by (simp add: getProduct_def)
  moreover have "map p_id (map ?f xs) = map p_id xs" for xs :: "product list"
    by (induction xs) auto
  ultimately show ?thesis using ps by simp
qed

theorem deleteCategory_keeps_products_witness:
  "getProduct (deleteCategory ex_db ''c1'') ''p1''
     = Some ((mk_product ''p1'' ''r1'' True)\<lparr>p_categoryId := None\<rparr>) \<and>
   getProduct ex_db ''p1'' = Some (mk_product ''p1'' ''r1'' True)"
  using deleteCategory_keeps_products
    [of "\<lparr>c_id = ''c1'', c_restaurantId = ''r1'', c_name = ''Food'', c_order = 0\<rparr>"
        ex_db "''p1''" "mk_product ''p1'' ''r1'' True"]
  by (simp add: ex_defs getProduct_def)

section \<open>Registration\<close>

text \<open>
  C9 (as the code has it). Registration inserts the identity and then its restaurant, as
  two separate steps. With a body that the schema accepts and fresh ids: when the email
  is already in use nothing is inserted; otherwise the identity is inserted with the free
  plan, and then either the derived slug is already taken, the request fails with status
  400 and the store holds the new identity and no new restaurant, or the restaurant of
  that identity is inserted as well.
\<close>

theorem post_register_two_steps:
  assumes "parse_register body = Inr data"
      and "uid \<notin> u_id ` set (users db)"
      and "rid \<notin> r_id ` set (restaurants db)"
  shows "(getUserByEmail db (rd_email data) \<noteq> None \<longrightarrow>
            post_register db hash uid rid now login_ok body = (Fail 400 EmailInUse, db)) \<and>
         (getUserByEmail db (rd_email data) = None \<longrightarrow>
            (\<exists>u. u_id u = uid \<and> u_email u = rd_email data \<and> u_plan u = ''free'' \<and>
               ((\<exists>r \<in> set (restaurants db). r_slug r = generateSlug (rd_restaurantName data)) \<longrightarrow>
                  post_register db hash uid rid now login_ok body =
                    (Fail 400 (Thrown (UniqueViolation ''restaurants_slug_unique'')),
                     db\<lparr>users := users db @ [u]\<rparr>)) \<and>
               (\<not> (\<exists>r \<in> set (restaurants db). r_slug r = generateSlug (rd_restaurantName data)) \<longrightarrow>
                  (\<exists>r. r_id r = rid \<and> r_userId r = uid \<and>
                        r_slug r = generateSlug (rd_restaurantName data) \<and>
                        post_register db hash uid rid now login_ok body =
                          (if login_ok then Json (u, r) else Fail 500 AutoLoginFailed,
                           db\<lparr>users := users db @ [u],
                              restaurants := restaurants db @ [r]\<rparr>)))))"
proof (intro conjI impI)
  assume "getUserByEmail db (rd_email data) \<noteq> None"
  then show "post_register db hash uid rid now login_ok body = (Fail 400 EmailInUse, db)"
    using assms(1) by (auto simp: post_register_def)
next
  assume free: "getUserByEmail db (rd_email data) = None"
  let ?u = "\<lparr>u_id = uid, u_email = rd_email data, u_password = hash (rd_password data),
              u_plan = ''free'', u_stripeCustomerId = None, u_stripeSubscriptionId = None,
              u_subscriptionStatus = None, u_subscriptionEndsAt = None,
              u_createdAt = Some now\<rparr>"
  let ?db1 = "db\<lparr>users := users db @ [?u]\<rparr>"
  let ?slug = "generateSlug (rd_restaurantName data)"
  let ?r = "\<lparr>r_id = rid, r_userId = uid, r_name = rd_restaurantName data,
              r_description = None, r_address = None, r_phone = None, r_hours = None,
              r_logoUrl = None, r_primaryColor = Some ''#059669'',
              r_menuStyle = Some ''cards'', r_slug = ?slug,
              r_createdAt = Some now, r_updatedAt = Some now\<rparr>"
  have no_email: "\<not> (\<exists>x \<in> set (users db). u_email x = rd_email data)"
    using free find_None_D [of "\<lambda>u. u_email u = rd_email data" "users db"]
    by (simp add: getUserByEmail_def)
  have cu: "createUser db uid now
              \<lparr>iu_email = rd_email data, iu_password = hash (rd_password data),
               iu_plan = Some ''free''\<rparr> = Inr (?u, ?db1)"
    using assms(2) no_email by (auto simp: createUser_def Let_def)
  have taken: "createRestaurant ?db1 rid now
                 \<lparr>ir_userId = uid, ir_name = rd_restaurantName data, ir_slug = ?slug\<rparr>
               = Inl (UniqueViolation ''restaurants_slug_unique'')"
    if "\<exists>r \<in> set (restaurants db). r_slug r = ?slug"
    using that assms(3) by (auto simp: createRestaurant_def)
  have fresh: "createRestaurant ?db1 rid now
                 \<lparr>ir_userId = uid, ir_name = rd_restaurantName data, ir_slug = ?slug\<rparr>
               = Inr (?r, ?db1\<lparr>restaurants := restaurants db @ [?r]\<rparr>)"
    if "\<not> (\<exists>r \<in> set (restaurants db). r_slug r = ?slug)"
    using that assms(3) by (auto simp: createRestaurant_def Let_def)
  have A: "post_register db hash uid rid now login_ok body =
             (Fail 400 (Thrown (UniqueViolation ''restaurants_slug_unique'')), ?db1)"
    if "\<exists>r \<in> set (restaurants db). r_slug r = ?slug"
    using assms(1) free cu taken [OF that] by (simp add: post_register_def)
  have B: "post_register db hash uid rid now login_ok body =
             (if login_ok then Json (?u, ?r) else Fail 500 AutoLoginFailed,
              db\<lparr>users := users db @ [?u], restaurants := restaurants db @ [?r]\<rparr>)"
    if "\<not> (\<exists>r \<in> set (restaurants db). r_slug r = ?slug)"
    using assms(1) free cu fresh [OF that] by (simp add: post_register_def)
  show "\<exists>u. u_id u = uid \<and> u_email u = rd_email data \<and> u_plan u = ''free'' \<and>
           ((\<exists>r \<in> set (restaurants db). r_slug r = ?slug) \<longrightarrow>
              post_register db hash uid rid now login_ok body =
                (Fail 400 (Thrown (UniqueViolation ''restaurants_slug_unique'')),
                 db\<lparr>users := users db @ [u]\<rparr>)) \<and>
           (\<not> (\<exists>r \<in> set (restaurants db). r_slug r = ?slug) \<longrightarrow>
              (\<exists>r. r_id r = rid \<and> r_userId r = uid \<and> r_slug r = ?slug \<and>
                    post_register db hash uid rid now login_ok body =
                      (if login_ok then Json (u, r) else Fail 500 AutoLoginFailed,
                       db\<lparr>users := users db @ [u], restaurants := restaurants db @ [r]\<rparr>)))"
  proof (intro exI [of _ ?u] conjI impI)
    assume "\<not> (\<exists>r \<in> set (restaurants db). r_slug r = ?slug)"
    from B [OF this]
    show "\<exists>r. r_id r = rid \<and> r_userId r = uid \<and> r_slug r = ?slug \<and>
               post_register db hash uid rid now login_ok body =
                 (if login_ok then Json (?u, r) else Fail 500 AutoLoginFailed,
                  db\<lparr>users := users db @ [?u], restaurants := restaurants db @ [r]\<rparr>)"
      by (intro exI [of _ ?r]) simp
  qed (use A in simp_all)
qed

theorem post_register_two_steps_witness:
  "\<exists>u. u_id u = ''u3'' \<and> u_email u = ''new@example.com'' \<and> u_plan u = ''free'' \<and>
        post_register ex_db ex_hash ''u3'' ''r3'' 1 True ex_register_body =
          (Fail 400 (Thrown (UniqueViolation ''restaurants_slug_unique'')),
           ex_db\<lparr>users := users ex_db @ [u]\<rparr>)"
proof -
  let ?data = "\<lparr>rd_email = ''new@example.com'', rd_password = ''pw'',
                 rd_restaurantName = ''Joes Diner''\<rparr>"
  have parse: "parse_register ex_register_body = Inr ?data"
    by (simp add: parse_register_def ex_register_body_def)
  have uid: "''u3'' \<notin> u_id ` set (users ex_db)"
    and rid: "''r3'' \<notin> r_id ` set (restaurants ex_db)"
    by (simp_all add: ex_defs)
  have free: "getUserByEmail ex_db (rd_email ?data) = None"
    by (simp add: getUserByEmail_def ex_defs)
  have taken: "\<exists>r \<in> set (restaurants ex_db). r_slug r = generateSlug (rd_restaurantName ?data)"
    by (simp add: ex_slug ex_defs)
  from post_register_two_steps [OF parse uid rid, of ex_hash 1 True] free taken
  show ?thesis by auto
qed

text \<open>
  After a registration that fails on the slug of an existing restaurant, the identity of
  the submitted email is stored and owns no restaurant.
\<close>

theorem post_register_orphan_counterexample:
  "getUserByEmail ex_db ''new@example.com'' = None \<and>
   fst (post_register ex_db ex_hash ''u3'' ''r3'' 1 True ex_register_body)
     = Fail 400 (Thrown (UniqueViolation ''restaurants_slug_unique'')) \<and>
   getUserByEmail (snd (post_register ex_db ex_hash ''u3'' ''r3'' 1 True ex_register_body))
     ''new@example.com'' = Some ex_new_user \<and>
   getRestaurantByUserId (snd (post_register ex_db ex_hash ''u3'' ''r3'' 1 True ex_register_body))
     (u_id ex_new_user) = None"
  by (simp add: post_register_def parse_register_def ex_register_body_def ex_hash_def
        ex_new_user_def getUserByEmail_def createUser_def createRestaurant_def
        getRestaurantByUserId_def ex_slug Let_def ex_defs)

section \<open>No plan limit on product update\<close>

text \<open>
  C10. The update route never answers with the plan-limit denial, whatever the request
  is. For a free identity whose restaurant has five or more active products, an update
  request that sets the active flag of one of its inactive products succeeds, when the
  patch carries a price and a sort order that the database accepts (or none) and an
  acceptable category reference: the updated product is returned active, and the
  restaurant's count of active products has grown, beyond five.
\<close>

theorem put_products_ignores_plan_limit:
  assumes "getRestaurantByUserId db (u_id user) = Some r"
      and "getProduct db i = Some p"
      and "p_restaurantId p = r_id r"
      and "\<not> p_isActive p"
      and "u_plan user = ''free''"
      and "5 \<le> getProductCount db (r_id r)"
      and "pp_isActive data = Some True"
      and "category_ok db (none_to_null (pp_categoryId data))"
      and "price_ok numeric_in (pp_price data)"
      and "order_ok (pp_order data)"
  shows "(\<exists>p' db'. put_products numeric_in db now (Some user) i (Some data) file
                     = (Json (Some p'), db') \<and>
           p_id p' = i \<and> p_restaurantId p' = r_id r \<and> p_isActive p' \<and>
           getProductCount db (r_id r) < getProductCount db' (r_id r) \<and>
           5 < getProductCount db' (r_id r)) \<and>
         (\<forall>req_user j body' file' status.
            fst (put_products numeric_in db now req_user j body' file')
              \<noteq> Fail status PlanLimitExceeded)"
proof
  obtain price where price: "patch_price numeric_in (pp_price data) = Some price"
    using assms(9) by (auto simp: price_ok_def patch_price_def split: option.splits)
  let ?d0 = "data\<lparr>pp_categoryId := none_to_null (pp_categoryId data),
                   pp_imageUrl := (case file of None \<Rightarrow> pp_imageUrl data
                                   | Some f \<Rightarrow> Some (Some (upload_url f)))\<rparr>"
  let ?f = "apply_patch (?d0\<lparr>pp_price := price\<rparr>) now"
  let ?g = "\<lambda>x. if p_id x = i then ?f x else x"
  let ?db' = "db\<lparr>products := map ?g (products db)\<rparr>"
  let ?Q = "\<lambda>x. p_restaurantId x = r_id r \<and> p_isActive x"
  have p_in: "p \<in> set (products db)" and p_id: "p_id p = i"
    using assms(2) find_Some_D [of "\<lambda>x. p_id x = i" "products db" p]
    by (auto simp: getProduct_def)
  have fk: "\<not> (case pp_categoryId ?d0 of Some (Some cid) \<Rightarrow> \<not> category_exists db cid
                | _ \<Rightarrow> False)"
    using assms(8) by (auto simp: category_ok_def split: option.splits)
  have ord: "\<not> (case pp_order ?d0 of Some n \<Rightarrow> \<not> int4_ok n | None \<Rightarrow> False)"
    using assms(10) by (auto simp: order_ok_def split: option.splits)
  have key: "\<And>x. p_id (?f x) = p_id x" by (simp add: apply_patch_def)
  have get': "getProduct ?db' i = Some (?f p)"
    using assms(2) find_map_upd [of p_id ?f i "products db", OF key]
    by (simp add: getProduct_def)
  have upd: "updateProduct numeric_in db now i ?d0 = Inr (Some (?f p), ?db')"
    using fk ord get' price by (simp add: updateProduct_def Let_def)
  have res: "put_products numeric_in db now (Some user) i (Some data) file
               = (Json (Some (?f p)), ?db')"
    using assms(1,2,3) upd by (simp add: put_products_def)
  have act: "p_isActive (?f x)" and rid: "p_restaurantId (?f x) = p_restaurantId x" for x
    using assms(7) by (simp_all add: apply_patch_def)
  have "length (filter ?Q (products db)) < length (filter ?Q (map ?g (products db)))"
  proof (rule filter_map_grows [where y = p])
    show "?Q (?g x)" if "?Q x" for x using that act rid by simp
    show "p \<in> set (products db)" by (rule p_in)
    show "\<not> ?Q p" using assms(4) by simp
    show "?Q (?g p)" using p_id act rid assms(3) by simp
  qed
  then have cnt: "getProductCount db (r_id r) < getProductCount ?db' (r_id r)"
    by (simp add: getProductCount_def)
  show "\<exists>p' db'. put_products numeric_in db now (Some user) i (Some data) file
                    = (Json (Some p'), db') \<and>
          p_id p' = i \<and> p_restaurantId p' = r_id r \<and> p_isActive p' \<and>
          getProductCount db (r_id r) < getProductCount db' (r_id r) \<and>
          5 < getProductCount db' (r_id r)"
    using res cnt act rid key p_id assms(3,6)
    by (intro exI [of _ "?f p"] exI [of _ ?db']) simp
next
  show "\<forall>req_user j body' file' status.
          fst (put_products numeric_in db now req_user j body' file')
            \<noteq> Fail status PlanLimitExceeded"
    by (auto simp: put_products_def updateProduct_def Let_def
             split: option.splits sum.splits prod.splits if_splits)
qed

theorem put_products_ignores_plan_limit_witness:
  "(\<exists>p' db'. put_products ex_numeric_in ex_db 1 (Some ex_user) ''p6'' (Some ex_patch) None
               = (Json (Some p'), db') \<and>
           p_id p' = ''p6'' \<and> p_restaurantId p' = r_id ex_restaurant \<and> p_isActive p' \<and>
           getProductCount ex_db (r_id ex_restaurant) < getProductCount db' (r_id ex_restaurant) \<and>
           5 < getProductCount db' (r_id ex_restaurant)) \<and>
   (\<forall>req_user j body' file' status.
      fst (put_products ex_numeric_in ex_db 1 req_user j body' file')
        \<noteq> Fail status PlanLimitExceeded)"
  by (rule put_products_ignores_plan_limit [where p = "mk_product ''p6'' ''r1'' False"])
     (simp_all add: ex_defs ex_patch_def getRestaurantByUserId_def getProduct_def
        getProductCount_def category_ok_def none_to_null_def price_ok_def order_ok_def
        ex_numeric_in_values)

end
